theory Spec2Isabelle
  imports Main "HOL-Library.Sublist" "HOL-Library.AList"
begin

section \<open>The inputs of the construct\<close>

text \<open>
  The source is one class, \<open>SupabaseStudio\<close> (src/supabase-studio/index.ts), whose
  constructor assembles an Amplify Hosting application. Its inputs are the enclosing
  scope, the construct id and the props. A secret and a parameter are handed over as
  objects: the identifier is one field, the value stored in the service is another one.
\<close>

record ISecret =
  secretArn :: string
  secretValue :: string

record ResourceEnvironment =
  account :: string
  region :: string

record StringParameter =
  parameterName :: string
  stringValue :: string
  env :: ResourceEnvironment

record SupabaseStudioProps =
  sourceBranch :: "string option"
  appRoot :: "string option"
  supabaseUrl :: string
  dbSecret :: ISecret
  anonKey :: StringParameter
  serviceRoleKey :: StringParameter

text \<open>The enclosing scope, known by the path of its node in the construct tree.\<close>

record Construct =
  node_path :: string

text \<open>
  Values that only exist at deployment: the pseudo parameters \<open>cdk.Aws.PARTITION\<close>,
  \<open>cdk.Aws.REGION\<close>, \<open>cdk.Aws.ACCOUNT_ID\<close>, and the two attributes the platform
  assigns to the application (\<open>app.appId\<close>, \<open>app.defaultDomain\<close>). The constructor
  splices them into strings, so they are inputs of the model.
\<close>

record Aws =
  PARTITION :: string
  REGION :: string
  ACCOUNT_ID :: string
  attrAppId :: string
  attrDefaultDomain :: string

section \<open>The objects that are built\<close>

datatype SecretValue = secretsManager string "string option"

record GitHubSourceCodeProvider =
  owner :: string
  repository :: string
  oauthToken :: SecretValue

datatype ServicePrincipal = ServicePrincipal string

record PolicyStatement =
  sid :: string
  actions :: "string list"
  resources :: "string list"

record Policy =
  policyName :: string
  statements :: "PolicyStatement list"

record Role =
  description :: string
  path :: string
  assumedBy :: ServicePrincipal
  attachedPolicies :: "Policy list"

text \<open>
  A call \<open>x.grantRead(role)\<close> is kept as what the source fixes: the resource, by its
  identifier, and the grantee, by the path of its node. What the call adds to which
  policy is the library's business and is not part of this model.
\<close>

datatype Grantable = Secret string | Parameter string

record Grant =
  resource :: Grantable
  grantee :: string

record Phase =
  commands :: "string list"

record Phases =
  preBuild :: Phase
  build :: Phase

record Artifacts =
  baseDirectory :: string
  files :: "string list"

record Cache =
  paths :: "string list"

record Frontend =
  phases :: Phases
  artifacts :: Artifacts
  cache :: Cache

text \<open>\<open>application_appRoot\<close> is the key \<open>appRoot\<close> of an entry of \<open>applications\<close>.\<close>

record Application =
  application_appRoot :: string
  frontend :: Frontend

record BuildSpecObject =
  version :: nat
  applications :: "Application list"

datatype BuildSpec = fromObjectToYaml BuildSpecObject

datatype RedirectStatus =
  REWRITE | PERMANENT_REDIRECT | TEMPORARY_REDIRECT | NOT_FOUND | NOT_FOUND_REWRITE

record CustomRule =
  source :: string
  target :: string
  status :: RedirectStatus

text \<open>
  An object literal of environment variables is a list of pairs in the order written;
  \<open>map_of\<close> reads it. \<open>role\<close> is the path of the role's node: the role itself is
  changed after the application is built, and the application only refers to it.
\<close>

type_synonym environment = "(string \<times> string) list"

record App =
  appId :: string
  defaultDomain :: string
  appName :: string
  role :: string
  sourceCodeProvider :: GitHubSourceCodeProvider
  buildSpec :: BuildSpec
  environmentVariables :: environment
  customRules :: "CustomRule list"
  propertyOverrides :: "(string \<times> string) list"

record Branch =
  branch_app :: string
  branchName :: string
  stage :: string
  autoBuild :: bool
  branch_environmentVariables :: environment
  branch_propertyOverrides :: "(string \<times> string) list"

text \<open>
  The finished construct: the three public fields of the class, and the children it
  created in the tree (the role, the read grants asked for, the logging policy).
\<close>

record SupabaseStudio =
  app :: App
  prodBranch :: Branch
  prodBranchUrl :: string
  child_Role :: Role
  grants :: "Grant list"
  child_AmplifySSRLoggingPolicy :: Policy

section \<open>The calls into the libraries\<close>

text \<open>
  The id of a node is stored with every path separator \<open>/\<close> rewritten to \<open>--\<close>. The path
  of a child node is the parent's path, a slash and that id (no slash at the root).
\<close>

definition sanitizeId :: "string \<Rightarrow> string" where
  "sanitizeId ident = concat (map (\<lambda>c. if c = CHR ''/'' then ''--'' else [c]) ident)"

definition child_path :: "string \<Rightarrow> string \<Rightarrow> string" where
  "child_path parent ident =
     (if parent = [] then sanitizeId ident else parent @ ''/'' @ sanitizeId ident)"

text \<open>\<open>s.replace(/\//g, '')\<close>: every slash removed.\<close>

definition replace_slashes :: "string \<Rightarrow> string" where
  "replace_slashes s = filter (\<lambda>c. c \<noteq> CHR ''/'') s"

definition grantRead :: "Grantable \<Rightarrow> string \<Rightarrow> Grant list \<Rightarrow> Grant list" where
  "grantRead r g gs = gs @ [\<lparr>resource = r, grantee = g\<rparr>]"

definition addPropertyOverride ::
  "string \<Rightarrow> string \<Rightarrow> (string \<times> string) list \<Rightarrow> (string \<times> string) list" where
  "addPropertyOverride k v ovs = AList.update k v ovs"

definition addBranch :: "App \<Rightarrow> string \<Rightarrow> string \<Rightarrow> bool \<Rightarrow> environment \<Rightarrow> Branch" where
  "addBranch a name stg auto vars =
     \<lparr>branch_app = appId a, branchName = name, stage = stg, autoBuild = auto,
      branch_environmentVariables = vars, branch_propertyOverrides = []\<rparr>"

definition addEnvironment :: "string \<Rightarrow> string \<Rightarrow> Branch \<Rightarrow> Branch" where
  "addEnvironment name v b =
     b\<lparr>branch_environmentVariables := AList.update name v (branch_environmentVariables b)\<rparr>"

text \<open>Attaching a policy to a role that already has it changes nothing.\<close>

definition attachToRole :: "Policy \<Rightarrow> Role \<Rightarrow> Role" where
  "attachToRole p r =
     (if p \<in> set (attachedPolicies r) then r
      else r\<lparr>attachedPolicies := attachedPolicies r @ [p]\<rparr>)"

section \<open>The constructor\<close>

definition gitHubProvider :: GitHubSourceCodeProvider where
  "gitHubProvider =
     \<lparr>owner = ''ProvorovOleksii'', repository = ''supabase'',
      oauthToken = secretsManager ''github-token'' (Some ''token'')\<rparr>"

definition new_Role :: Role where
  "new_Role =
     \<lparr>description = ''The service role that will be used by AWS Amplify for SSR app logging.'',
      path = ''/service-role/'',
      assumedBy = ServicePrincipal ''amplify.amazonaws.com'',
      attachedPolicies = []\<rparr>"

definition preBuild_commands :: "string list" where
  "preBuild_commands =
     [''echo POSTGRES_PASSWORD=$(aws secretsmanager get-secret-value --secret-id $DB_SECRET_ARN --query SecretString | jq -r . | jq -r .password) >> .env.production'',
      ''echo SUPABASE_ANON_KEY=$(aws ssm get-parameter --region $SUPABASE_REGION --name $ANON_KEY_NAME --query Parameter.Value) >> .env.production'',
      ''echo SUPABASE_SERVICE_KEY=$(aws ssm get-parameter --region $SUPABASE_REGION --name $SERVICE_KEY_NAME --query Parameter.Value) >> .env.production'',
      ''env | grep -e STUDIO_PG_META_URL >> .env.production'',
      ''env | grep -e SUPABASE_ >> .env.production'',
      ''env | grep -e NEXT_PUBLIC_ >> .env.production'',
      ''cd ../'',
      ''export NODE_OPTIONS='' @ [CHR 0x27] @ ''--max-old-space-size=12000'' @ [CHR 0x27],
      ''corepack enable'',
      ''corepack prepare pnpm@latest --activate'',
      ''pnpm install --config.ignore-engines=true'']"

definition build_commands :: "string list" where
  "build_commands =
     [''pnpm exec turbo run build --filter=studio...'',
      ''pnpm install --prod'']"

definition new_buildSpec :: "string \<Rightarrow> BuildSpec" where
  "new_buildSpec root =
     fromObjectToYaml
       \<lparr>version = 1,
        applications =
          [\<lparr>application_appRoot = root,
            frontend =
              \<lparr>phases =
                 \<lparr>preBuild = \<lparr>commands = preBuild_commands\<rparr>,
                  build = \<lparr>commands = build_commands\<rparr>\<rparr>,
               artifacts = \<lparr>baseDirectory = ''.next/standalone'', files = [''**/*'']\<rparr>,
               cache = \<lparr>paths = [''node_modules/**/*'']\<rparr>\<rparr>\<rparr>]\<rparr>"

definition app_environmentVariables ::
  "string \<Rightarrow> string \<Rightarrow> SupabaseStudioProps \<Rightarrow> environment" where
  "app_environmentVariables buildImage root props =
     [(''NODE_OPTIONS'', ''--max-old-space-size=12000''),
      (''AMPLIFY_DIFF_DEPLOY'', ''false''),
      (''_CUSTOM_IMAGE'', buildImage),
      (''STUDIO_PG_META_URL'', supabaseUrl props @ ''/pg''),
      (''SUPABASE_URL'', supabaseUrl props),
      (''SUPABASE_PUBLIC_URL'', supabaseUrl props),
      (''SUPABASE_REGION'', region (env (serviceRoleKey props))),
      (''DB_SECRET_ARN'', secretArn (dbSecret props)),
      (''ANON_KEY_NAME'', parameterName (anonKey props)),
      (''SERVICE_KEY_NAME'', parameterName (serviceRoleKey props)),
      (''AMPLIFY_MONOREPO_APP_ROOT'', root)]"

definition new_App ::
  "Aws \<Rightarrow> string \<Rightarrow> string \<Rightarrow> GitHubSourceCodeProvider \<Rightarrow> BuildSpec \<Rightarrow> environment \<Rightarrow>
   CustomRule list \<Rightarrow> App" where
  "new_App aws name r provider spec vars rules =
     \<lparr>appId = attrAppId aws, defaultDomain = attrDefaultDomain aws, appName = name,
      role = r, sourceCodeProvider = provider, buildSpec = spec,
      environmentVariables = vars, customRules = rules, propertyOverrides = []\<rparr>"

definition new_amplifySSRLoggingPolicy :: "Aws \<Rightarrow> App \<Rightarrow> Policy" where
  "new_amplifySSRLoggingPolicy aws a =
     \<lparr>policyName = ''AmplifySSRLoggingPolicy-'' @ appId a,
      statements =
        [\<lparr>sid = ''PushLogs'',
          actions = [''logs:CreateLogStream'', ''logs:PutLogEvents''],
          resources = [''arn:'' @ PARTITION aws @ '':logs:'' @ REGION aws @ '':'' @ ACCOUNT_ID aws @
                         '':log-group:/aws/amplify/'' @ appId a @ '':log-stream:*'']\<rparr>,
         \<lparr>sid = ''CreateLogGroup'',
          actions = [''logs:CreateLogGroup''],
          resources = [''arn:'' @ PARTITION aws @ '':logs:'' @ REGION aws @ '':'' @ ACCOUNT_ID aws @
                         '':log-group:/aws/amplify/*'']\<rparr>,
         \<lparr>sid = ''DescribeLogGroups'',
          actions = [''logs:DescribeLogGroups''],
          resources = [''arn:'' @ PARTITION aws @ '':logs:'' @ REGION aws @ '':'' @ ACCOUNT_ID aws @
                         '':log-group:*'']\<rparr>]\<rparr>"

text \<open>
  The constructor, statement by statement. \<open>this_path\<close> is \<open>this.node.path\<close>; the role
  is referred to by the path of its node, and its final state (with the logging policy
  attached) is the one kept in the result. The ids \<open>App\<close>, \<open>ProdBranch\<close> and
  \<open>AmplifySSRLoggingPolicy\<close> only name nodes of the tree that nothing refers to by
  path; they are not kept.
\<close>

definition new_SupabaseStudio ::
  "Construct \<Rightarrow> string \<Rightarrow> SupabaseStudioProps \<Rightarrow> Aws \<Rightarrow> SupabaseStudio" where
  "new_SupabaseStudio scope ident props aws =
     (let this_path = child_path (node_path scope) ident;
          buildImage = ''public.ecr.aws/sam/build-nodejs22.x:1.140.0-20250605234713'';
          root = ''apps/studio'';
          role0 = new_Role;
          role_ref = child_path this_path ''Role'';
          gs1 = grantRead (Secret (secretArn (dbSecret props))) role_ref [];
          gs2 = grantRead (Parameter (parameterName (anonKey props))) role_ref gs1;
          gs3 = grantRead (Parameter (parameterName (serviceRoleKey props))) role_ref gs2;
          spec = new_buildSpec root;
          app0 = new_App aws (replace_slashes this_path) role_ref gitHubProvider spec
                   (app_environmentVariables buildImage root props)
                   [\<lparr>source = ''/<*>'', target = ''/index.html'', status = NOT_FOUND_REWRITE\<rparr>];
          app1 = app0\<lparr>propertyOverrides :=
                   addPropertyOverride ''Platform'' ''WEB_COMPUTE'' (propertyOverrides app0)\<rparr>;
          branch0 = addBranch app1 ''master'' ''PRODUCTION'' True
                      [(''NEXT_PUBLIC_SITE_URL'', ''https://main.'' @ appId app1 @ ''.amplifyapp.com''),
                       (''AMPLIFY_MONOREPO_APP_ROOT'', root)];
          branch1 = addEnvironment ''AMPLIFY_MONOREPO_APP_ROOT'' root branch0;
          branch2 = branch1\<lparr>branch_propertyOverrides :=
                      addPropertyOverride ''Framework'' ''Next.js - SSR''
                        (branch_propertyOverrides branch1)\<rparr>;
          policy = new_amplifySSRLoggingPolicy aws app1;
          role1 = attachToRole policy role0
      in \<lparr>app = app1, prodBranch = branch2,
          prodBranchUrl = ''https://'' @ branchName branch2 @ ''.'' @ defaultDomain app1,
          child_Role = role1, grants = gs3, child_AmplifySSRLoggingPolicy = policy\<rparr>)"

text \<open>The build specification object of an application, and its only entry.\<close>

fun spec_object :: "BuildSpec \<Rightarrow> BuildSpecObject" where
  "spec_object (fromObjectToYaml obj) = obj"

text \<open>The commands of one phase, for each entry of \<open>applications\<close>.\<close>

definition phase_commands :: "(Phases \<Rightarrow> Phase) \<Rightarrow> App \<Rightarrow> string list list" where
  "phase_commands ph a =
     map (\<lambda>e. commands (ph (phases (frontend e)))) (applications (spec_object (buildSpec a)))"

section \<open>A concrete deployment\<close>

definition scope0 :: Construct where
  "scope0 = \<lparr>node_path = ''Supabase''\<rparr>"

definition aws0 :: Aws where
  "aws0 =
     \<lparr>PARTITION = ''aws'', REGION = ''us-east-1'', ACCOUNT_ID = ''123456789012'',
      attrAppId = ''d1a2b3c4d5e6f7'', attrDefaultDomain = ''d1a2b3c4d5e6f7.amplifyapp.com''\<rparr>"

definition props0 :: SupabaseStudioProps where
  "props0 =
     \<lparr>sourceBranch = None, appRoot = None, supabaseUrl = ''https://api.example.com'',
      dbSecret =
        \<lparr>secretArn = ''arn:aws:secretsmanager:us-east-1:123456789012:secret:db-AbCdEf'',
         secretValue = ''hunter2''\<rparr>,
      anonKey =
        \<lparr>parameterName = ''/supabase/anon'', stringValue = ''anon-jwt'',
         env = \<lparr>account = ''123456789012'', region = ''us-east-1''\<rparr>\<rparr>,
      serviceRoleKey =
        \<lparr>parameterName = ''/supabase/service'', stringValue = ''service-jwt'',
         env = \<lparr>account = ''123456789012'', region = ''us-east-1''\<rparr>\<rparr>\<rparr>"

section \<open>What the constructor returns, field by field\<close>

lemma app_new:
  "app (new_SupabaseStudio scope ident props aws) =
     \<lparr>appId = attrAppId aws, defaultDomain = attrDefaultDomain aws,
      appName = replace_slashes (child_path (node_path scope) ident),
      role = child_path (child_path (node_path scope) ident) ''Role'',
      sourceCodeProvider = gitHubProvider,
      buildSpec = new_buildSpec ''apps/studio'',
      environmentVariables =
        app_environmentVariables
          ''public.ecr.aws/sam/build-nodejs22.x:1.140.0-20250605234713'' ''apps/studio'' props,
      customRules =
        [\<lparr>source = ''/<*>'', target = ''/index.html'', status = NOT_FOUND_REWRITE\<rparr>],
      propertyOverrides = [(''Platform'', ''WEB_COMPUTE'')]\<rparr>"
  by (simp add: new_SupabaseStudio_def Let_def new_App_def addPropertyOverride_def)

lemma prodBranch_new:
  "prodBranch (new_SupabaseStudio scope ident props aws) =
     \<lparr>branch_app = attrAppId aws, branchName = ''master'', stage = ''PRODUCTION'',
      autoBuild = True,
      branch_environmentVariables =
        [(''NEXT_PUBLIC_SITE_URL'', ''https://main.'' @ attrAppId aws @ ''.amplifyapp.com''),
         (''AMPLIFY_MONOREPO_APP_ROOT'', ''apps/studio'')],
      branch_propertyOverrides = [(''Framework'', ''Next.js - SSR'')]\<rparr>"
  by (simp add: new_SupabaseStudio_def Let_def new_App_def addPropertyOverride_def
      addBranch_def addEnvironment_def)

lemma prodBranchUrl_new:
  "prodBranchUrl (new_SupabaseStudio scope ident props aws) =
     ''https://'' @ ''master'' @ ''.'' @ attrDefaultDomain aws"
  by (simp add: new_SupabaseStudio_def Let_def new_App_def addPropertyOverride_def
      addBranch_def addEnvironment_def)

lemma policy_new:
  "child_AmplifySSRLoggingPolicy (new_SupabaseStudio scope ident props aws) =
     new_amplifySSRLoggingPolicy aws (app (new_SupabaseStudio scope ident props aws))"
  by (simp add: new_SupabaseStudio_def Let_def)

lemma grants_new:
  "grants (new_SupabaseStudio scope ident props aws) =
     [\<lparr>resource = Secret (secretArn (dbSecret props)),
       grantee = child_path (child_path (node_path scope) ident) ''Role''\<rparr>,
      \<lparr>resource = Parameter (parameterName (anonKey props)),
       grantee = child_path (child_path (node_path scope) ident) ''Role''\<rparr>,
      \<lparr>resource = Parameter (parameterName (serviceRoleKey props)),
       grantee = child_path (child_path (node_path scope) ident) ''Role''\<rparr>]"
  by (simp add: new_SupabaseStudio_def Let_def grantRead_def)

lemma phase_commands_new:
  "phase_commands ph (app (new_SupabaseStudio scope ident props aws)) =
     [commands (ph \<lparr>preBuild = \<lparr>commands = preBuild_commands\<rparr>,
                    build = \<lparr>commands = build_commands\<rparr>\<rparr>)]"
  by (simp add: app_new phase_commands_def new_buildSpec_def)

section \<open>The logging policy\<close>

text \<open>
  C1, as stated: each of the first two statements of the logging policy has resource ARNs
  that embed the identifier of this application. It fails for the second statement
  (\<open>CreateLogGroup\<close>): in the concrete deployment its only resource is the pattern
  \<open>arn:aws:logs:us-east-1:123456789012:log-group:/aws/amplify/*\<close>, in which the
  identifier \<open>d1a2b3c4d5e6f7\<close> of the application does not occur.
\<close>

theorem loggingPolicy_second_statement_counterexample:
  "resources (statements (child_AmplifySSRLoggingPolicy
       (new_SupabaseStudio scope0 ''Studio'' props0 aws0)) ! 1) =
     [''arn:aws:logs:us-east-1:123456789012:log-group:/aws/amplify/*'']
   \<and> appId (app (new_SupabaseStudio scope0 ''Studio'' props0 aws0)) = ''d1a2b3c4d5e6f7''
   \<and> \<not> sublist ''d1a2b3c4d5e6f7''
         ''arn:aws:logs:us-east-1:123456789012:log-group:/aws/amplify/*''"
  by (simp add: policy_new app_new new_amplifySSRLoggingPolicy_def aws0_def
      sublist_Cons_right)

text \<open>
  C1, amended: the policy has three statements, \<open>PushLogs\<close>, \<open>CreateLogGroup\<close> and
  \<open>DescribeLogGroups\<close>, each with one resource. The first allows
  \<open>logs:CreateLogStream\<close> and \<open>logs:PutLogEvents\<close>, the second \<open>logs:CreateLogGroup\<close>,
  the third \<open>logs:DescribeLogGroups\<close>, and nothing else. The resource of the first is
  the log streams of the log group \<open>/aws/amplify/<appId>\<close> and embeds the identifier of
  this application. The resource of the second is the pattern
  \<open>log-group:/aws/amplify/*\<close>, the platform's log prefix: it is the same whatever the
  identifier of the application. The resource of the third is \<open>log-group:*\<close>, every log
  group of the account.
\<close>

theorem loggingPolicy_scope:
  "map sid (statements (child_AmplifySSRLoggingPolicy (new_SupabaseStudio scope ident props aws)))
     = [''PushLogs'', ''CreateLogGroup'', ''DescribeLogGroups'']
   \<and> map actions
         (statements (child_AmplifySSRLoggingPolicy (new_SupabaseStudio scope ident props aws)))
     = [[''logs:CreateLogStream'', ''logs:PutLogEvents''],
        [''logs:CreateLogGroup''],
        [''logs:DescribeLogGroups'']]
   \<and> map resources
         (statements (child_AmplifySSRLoggingPolicy (new_SupabaseStudio scope ident props aws)))
     = [[''arn:'' @ PARTITION aws @ '':logs:'' @ REGION aws @ '':'' @ ACCOUNT_ID aws @
           '':log-group:/aws/amplify/'' @
           appId (app (new_SupabaseStudio scope ident props aws)) @ '':log-stream:*''],
        [''arn:'' @ PARTITION aws @ '':logs:'' @ REGION aws @ '':'' @ ACCOUNT_ID aws @
           '':log-group:/aws/amplify/*''],
        [''arn:'' @ PARTITION aws @ '':logs:'' @ REGION aws @ '':'' @ ACCOUNT_ID aws @
           '':log-group:*'']]
   \<and> list_all (sublist (appId (app (new_SupabaseStudio scope ident props aws))))
        (resources (statements
          (child_AmplifySSRLoggingPolicy (new_SupabaseStudio scope ident props aws)) ! 0))
   \<and> statements (child_AmplifySSRLoggingPolicy
          (new_SupabaseStudio scope ident props (aws\<lparr>attrAppId := other\<rparr>))) ! 1
     = statements (child_AmplifySSRLoggingPolicy (new_SupabaseStudio scope ident props aws)) ! 1"
proof -
  let ?pre = "''arn:'' @ PARTITION aws @ '':logs:'' @ REGION aws @ '':'' @ ACCOUNT_ID aws @
           '':log-group:/aws/amplify/''"
  have emb: "sublist (attrAppId aws) (?pre @ attrAppId aws @ '':log-stream:*'')"
    by (rule sublist_appendI)
  show ?thesis
    using emb by (simp add: policy_new app_new new_amplifySSRLoggingPolicy_def)
qed

section \<open>Credentials: the grants, the environment and the fetch commands\<close>

text \<open>
  C2, as stated: the identifier of the database secret appears verbatim in the fetch
  commands of the pre-build phase. It fails: with the secret
  \<open>arn:aws:secretsmanager:us-east-1:123456789012:secret:db-AbCdEf\<close> no command of the
  pre-build phase contains that text. The commands are fixed strings.
\<close>

theorem fetch_commands_verbatim_counterexample:
  "secretArn (dbSecret props0) = ''arn:aws:secretsmanager:us-east-1:123456789012:secret:db-AbCdEf''
   \<and> \<not> list_ex (list_ex (sublist ''arn:aws:secretsmanager:us-east-1:123456789012:secret:db-AbCdEf''))
         (phase_commands preBuild (app (new_SupabaseStudio scope0 ''Studio'' props0 aws0)))"
  by (simp add: phase_commands_new preBuild_commands_def props0_def sublist_Cons_right)

text \<open>
  C2, amended: the three read grants are asked for the secret's ARN and the two
  parameters' names, each with the execution role as grantee; the application's
  environment binds \<open>DB_SECRET_ARN\<close>, \<open>ANON_KEY_NAME\<close> and \<open>SERVICE_KEY_NAME\<close> to
  those same three identifiers; and the three fetch commands, which are the first three
  commands of the pre-build phase, name the identifiers through the shell variables
  \<open>$DB_SECRET_ARN\<close>, \<open>$ANON_KEY_NAME\<close> and \<open>$SERVICE_KEY_NAME\<close>, not verbatim.
\<close>

theorem credentials_two_channels:
  "map resource (grants (new_SupabaseStudio scope ident props aws)) =
     [Secret (secretArn (dbSecret props)), Parameter (parameterName (anonKey props)),
      Parameter (parameterName (serviceRoleKey props))]
   \<and> map grantee (grants (new_SupabaseStudio scope ident props aws)) =
     replicate 3 (role (app (new_SupabaseStudio scope ident props aws)))
   \<and> map (map_of (environmentVariables (app (new_SupabaseStudio scope ident props aws))))
       [''DB_SECRET_ARN'', ''ANON_KEY_NAME'', ''SERVICE_KEY_NAME''] =
     [Some (secretArn (dbSecret props)), Some (parameterName (anonKey props)),
      Some (parameterName (serviceRoleKey props))]
   \<and> map (take 3) (phase_commands preBuild (app (new_SupabaseStudio scope ident props aws))) =
     [[''echo POSTGRES_PASSWORD=$(aws secretsmanager get-secret-value --secret-id $DB_SECRET_ARN --query SecretString | jq -r . | jq -r .password) >> .env.production'',
       ''echo SUPABASE_ANON_KEY=$(aws ssm get-parameter --region $SUPABASE_REGION --name $ANON_KEY_NAME --query Parameter.Value) >> .env.production'',
       ''echo SUPABASE_SERVICE_KEY=$(aws ssm get-parameter --region $SUPABASE_REGION --name $SERVICE_KEY_NAME --query Parameter.Value) >> .env.production'']]"
proof -
  let ?S = "new_SupabaseStudio scope ident props aws"
  have g: "map resource (grants ?S) =
      [Secret (secretArn (dbSecret props)), Parameter (parameterName (anonKey props)),
       Parameter (parameterName (serviceRoleKey props))]"
    by (simp add: grants_new)
  have r: "map grantee (grants ?S) = replicate 3 (role (app ?S))"
    by (simp add: grants_new app_new numeral_3_eq_3)
  have e: "map (map_of (environmentVariables (app ?S)))
       [''DB_SECRET_ARN'', ''ANON_KEY_NAME'', ''SERVICE_KEY_NAME''] =
     [Some (secretArn (dbSecret props)), Some (parameterName (anonKey props)),
      Some (parameterName (serviceRoleKey props))]"
    by (simp add: app_new app_environmentVariables_def)
  have c: "map (take 3) (phase_commands preBuild (app ?S)) =
      [take 3 preBuild_commands]"
    by (simp add: phase_commands_new)
  show ?thesis
    unfolding c using g r e by (simp add: preBuild_commands_def numeral_3_eq_3)
qed

section \<open>The URL of the production branch\<close>

text \<open>
  C3: the exposed URL is \<open>https://\<close>, the name of the production branch, a dot and the
  default domain of the application, both read from the handles; the branch is named
  \<open>master\<close>; the domain and the identifier are the ones the platform assigned. Where the
  platform's default domain is the identifier, a dot and the platform's domain, the URL is
  \<open>https://master.<appId>.<domain>\<close>. No scope, id or props changes the URL.
\<close>

theorem prodBranchUrl_derived:
  "prodBranchUrl (new_SupabaseStudio scope ident props aws) =
     ''https://'' @ branchName (prodBranch (new_SupabaseStudio scope ident props aws)) @ ''.'' @
       defaultDomain (app (new_SupabaseStudio scope ident props aws))
   \<and> branchName (prodBranch (new_SupabaseStudio scope ident props aws)) = ''master''
   \<and> defaultDomain (app (new_SupabaseStudio scope ident props aws)) = attrDefaultDomain aws
   \<and> appId (app (new_SupabaseStudio scope ident props aws)) = attrAppId aws
   \<and> (attrDefaultDomain aws = attrAppId aws @ ''.'' @ platform_domain \<longrightarrow>
        prodBranchUrl (new_SupabaseStudio scope ident props aws) =
          ''https://master.'' @ appId (app (new_SupabaseStudio scope ident props aws)) @ ''.'' @ platform_domain)
   \<and> prodBranchUrl (new_SupabaseStudio scope' ident' props' aws) =
       prodBranchUrl (new_SupabaseStudio scope ident props aws)"
  by (simp add: prodBranchUrl_new prodBranch_new app_new)

text \<open>
  C3 at the concrete deployment, whose default domain is
  \<open>d1a2b3c4d5e6f7.amplifyapp.com\<close>.
\<close>

theorem prodBranchUrl_derived_witness:
  "attrDefaultDomain aws0 = attrAppId aws0 @ ''.'' @ ''amplifyapp.com''
   \<and> prodBranchUrl (new_SupabaseStudio scope0 ''Studio'' props0 aws0) =
       ''https://master.d1a2b3c4d5e6f7.amplifyapp.com''"
proof -
  have h: "attrDefaultDomain aws0 = attrAppId aws0 @ ''.'' @ ''amplifyapp.com''"
    by (simp add: aws0_def)
  have a: "attrAppId aws0 = ''d1a2b3c4d5e6f7''"
    by (simp add: aws0_def)
  show ?thesis
    using h a prodBranchUrl_derived [of scope0 "''Studio''" props0 aws0 "''amplifyapp.com''"]
    by simp
qed

section \<open>The monorepo application root\<close>

text \<open>
  C4: the \<open>appRoot\<close> of the build specification, \<open>AMPLIFY_MONOREPO_APP_ROOT\<close> in the
  environment of the application and \<open>AMPLIFY_MONOREPO_APP_ROOT\<close> in the environment of
  the production branch are one and the same string, \<open>apps/studio\<close>.
\<close>

theorem appRoot_no_drift:
  "map application_appRoot
       (applications (spec_object (buildSpec (app (new_SupabaseStudio scope ident props aws))))) =
     [''apps/studio'']
   \<and> map_of (environmentVariables (app (new_SupabaseStudio scope ident props aws)))
       ''AMPLIFY_MONOREPO_APP_ROOT'' = Some ''apps/studio''
   \<and> map_of (branch_environmentVariables (prodBranch (new_SupabaseStudio scope ident props aws)))
       ''AMPLIFY_MONOREPO_APP_ROOT'' = Some ''apps/studio''"
  by (simp add: app_new prodBranch_new new_buildSpec_def app_environmentVariables_def)

section \<open>The build specification\<close>

text \<open>
  C5: the build specification has one application entry. Its pre-build phase is, in this
  order: the fetch of the database password from the secret store and of the two API keys
  from the parameter store, three filters of the process environment
  (\<open>STUDIO_PG_META_URL\<close>, \<open>SUPABASE_\<close>, \<open>NEXT_PUBLIC_\<close>), each of the six appending to
  \<open>.env.production\<close>; then \<open>cd ../\<close>, the memory ceiling in \<open>NODE_OPTIONS\<close>,
  \<open>corepack enable\<close>, the activation of pnpm and the install that ignores engines. Its
  build phase is the turbo build filtered to \<open>studio...\<close> and the production-only
  install. The artifacts are every file under \<open>.next/standalone\<close>, and the cache keeps
  \<open>node_modules\<close>.
\<close>

theorem buildSpec_structure:
  "spec_object (buildSpec (app (new_SupabaseStudio scope ident props aws))) =
     \<lparr>version = 1,
      applications =
        [\<lparr>application_appRoot = ''apps/studio'',
          frontend =
            \<lparr>phases =
               \<lparr>preBuild = \<lparr>commands =
                  [''echo POSTGRES_PASSWORD=$(aws secretsmanager get-secret-value --secret-id $DB_SECRET_ARN --query SecretString | jq -r . | jq -r .password) >> .env.production'',
                   ''echo SUPABASE_ANON_KEY=$(aws ssm get-parameter --region $SUPABASE_REGION --name $ANON_KEY_NAME --query Parameter.Value) >> .env.production'',
                   ''echo SUPABASE_SERVICE_KEY=$(aws ssm get-parameter --region $SUPABASE_REGION --name $SERVICE_KEY_NAME --query Parameter.Value) >> .env.production'',
                   ''env | grep -e STUDIO_PG_META_URL >> .env.production'',
                   ''env | grep -e SUPABASE_ >> .env.production'',
                   ''env | grep -e NEXT_PUBLIC_ >> .env.production'',
                   ''cd ../'',
                   ''export NODE_OPTIONS='' @ [CHR 0x27] @ ''--max-old-space-size=12000'' @ [CHR 0x27],
                   ''corepack enable'',
                   ''corepack prepare pnpm@latest --activate'',
                   ''pnpm install --config.ignore-engines=true'']\<rparr>,
                build = \<lparr>commands =
                  [''pnpm exec turbo run build --filter=studio...'',
                   ''pnpm install --prod'']\<rparr>\<rparr>,
             artifacts = \<lparr>baseDirectory = ''.next/standalone'', files = [''**/*'']\<rparr>,
             cache = \<lparr>paths = [''node_modules/**/*'']\<rparr>\<rparr>\<rparr>]\<rparr>
   \<and> map (\<lambda>cs. list_all (suffix '' >> .env.production'') (take 6 cs))
       (phase_commands preBuild (app (new_SupabaseStudio scope ident props aws))) = [True]"
  by (simp add: app_new new_buildSpec_def preBuild_commands_def build_commands_def
      phase_commands_def suffix_to_prefix eval_nat_numeral)

section \<open>Compute mode and fallback rule\<close>

text \<open>
  C6: whatever the inputs, the application carries the property override
  \<open>Platform = WEB_COMPUTE\<close> and exactly one custom rule, which rewrites \<open>/<*>\<close> to
  \<open>/index.html\<close> with the status \<open>NOT_FOUND_REWRITE\<close>.
\<close>

theorem compute_mode_and_fallback_rule:
  "map_of (propertyOverrides (app (new_SupabaseStudio scope ident props aws))) ''Platform'' =
     Some ''WEB_COMPUTE''
   \<and> customRules (app (new_SupabaseStudio scope ident props aws)) =
     [\<lparr>source = ''/<*>'', target = ''/index.html'', status = NOT_FOUND_REWRITE\<rparr>]"
  by (simp add: app_new)

section \<open>Inputs that the configuration does not depend on\<close>

text \<open>
  C8: the credential of the source provider is a reference to the secret
  \<open>github-token\<close>, field \<open>token\<close>; the environment of the application holds the ARN of
  the secret and the names of the parameters; and the construct is the same whatever
  values are stored in the secret and in the two parameters.
\<close>

theorem stored_values_not_in_configuration:
  "oauthToken (sourceCodeProvider (app (new_SupabaseStudio scope ident props aws))) =
     secretsManager ''github-token'' (Some ''token'')
   \<and> environmentVariables (app (new_SupabaseStudio scope ident props aws)) =
     [(''NODE_OPTIONS'', ''--max-old-space-size=12000''),
      (''AMPLIFY_DIFF_DEPLOY'', ''false''),
      (''_CUSTOM_IMAGE'', ''public.ecr.aws/sam/build-nodejs22.x:1.140.0-20250605234713''),
      (''STUDIO_PG_META_URL'', supabaseUrl props @ ''/pg''),
      (''SUPABASE_URL'', supabaseUrl props),
      (''SUPABASE_PUBLIC_URL'', supabaseUrl props),
      (''SUPABASE_REGION'', region (env (serviceRoleKey props))),
      (''DB_SECRET_ARN'', secretArn (dbSecret props)),
      (''ANON_KEY_NAME'', parameterName (anonKey props)),
      (''SERVICE_KEY_NAME'', parameterName (serviceRoleKey props)),
      (''AMPLIFY_MONOREPO_APP_ROOT'', ''apps/studio'')]
   \<and> new_SupabaseStudio scope ident
        (props\<lparr>dbSecret := (dbSecret props)\<lparr>secretValue := v1\<rparr>,
               anonKey := (anonKey props)\<lparr>stringValue := v2\<rparr>,
               serviceRoleKey := (serviceRoleKey props)\<lparr>stringValue := v3\<rparr>\<rparr>) aws =
     new_SupabaseStudio scope ident props aws"
proof -
  let ?S = "new_SupabaseStudio scope ident props aws"
  have t: "oauthToken (sourceCodeProvider (app ?S)) =
      secretsManager ''github-token'' (Some ''token'')"
    by (simp add: app_new gitHubProvider_def)
  have e: "environmentVariables (app ?S) =
      app_environmentVariables
        ''public.ecr.aws/sam/build-nodejs22.x:1.140.0-20250605234713'' ''apps/studio'' props"
    by (simp add: app_new)
  have n: "new_SupabaseStudio scope ident
        (props\<lparr>dbSecret := (dbSecret props)\<lparr>secretValue := v1\<rparr>,
               anonKey := (anonKey props)\<lparr>stringValue := v2\<rparr>,
               serviceRoleKey := (serviceRoleKey props)\<lparr>stringValue := v3\<rparr>\<rparr>) aws = ?S"
    by (simp add: new_SupabaseStudio_def Let_def app_environmentVariables_def)
  show ?thesis
    unfolding e using t n by (simp add: app_environmentVariables_def)
qed

text \<open>
  C9: the construct is the same whatever \<open>sourceBranch\<close> and \<open>appRoot\<close> are in the
  props; the application root is always \<open>apps/studio\<close> and the production branch is
  always \<open>master\<close>.
\<close>

theorem sourceBranch_appRoot_ignored:
  "new_SupabaseStudio scope ident (props\<lparr>sourceBranch := sb, appRoot := ar\<rparr>) aws =
     new_SupabaseStudio scope ident props aws
   \<and> map application_appRoot
       (applications (spec_object (buildSpec (app (new_SupabaseStudio scope ident props aws))))) =
     [''apps/studio'']
   \<and> branchName (prodBranch (new_SupabaseStudio scope ident props aws)) = ''master''"
proof -
  let ?S = "new_SupabaseStudio scope ident props aws"
  have n: "new_SupabaseStudio scope ident (props\<lparr>sourceBranch := sb, appRoot := ar\<rparr>) aws = ?S"
    by (simp add: new_SupabaseStudio_def Let_def app_environmentVariables_def)
  have a: "map application_appRoot (applications (spec_object (buildSpec (app ?S)))) =
      [''apps/studio'']"
    by (simp add: app_new new_buildSpec_def)
  have b: "branchName (prodBranch ?S) = ''master''"
    by (simp add: prodBranch_new)
  show ?thesis
    using n a b by simp
qed

section \<open>The site URL of the branch\<close>

text \<open>
  C10: \<open>NEXT_PUBLIC_SITE_URL\<close> of the production branch is
  \<open>https://main.<appId>.amplifyapp.com\<close>, while the branch is named \<open>master\<close> and the
  exposed URL is \<open>https://master.<defaultDomain>\<close>; the two are never equal.
\<close>

theorem site_url_differs_from_prodBranchUrl:
  "map_of (branch_environmentVariables (prodBranch (new_SupabaseStudio scope ident props aws)))
       ''NEXT_PUBLIC_SITE_URL'' =
     Some (''https://main.'' @ appId (app (new_SupabaseStudio scope ident props aws)) @
           ''.amplifyapp.com'')
   \<and> branchName (prodBranch (new_SupabaseStudio scope ident props aws)) = ''master''
   \<and> prodBranchUrl (new_SupabaseStudio scope ident props aws) =
       ''https://master.'' @ defaultDomain (app (new_SupabaseStudio scope ident props aws))
   \<and> map_of (branch_environmentVariables (prodBranch (new_SupabaseStudio scope ident props aws)))
       ''NEXT_PUBLIC_SITE_URL'' \<noteq>
     Some (prodBranchUrl (new_SupabaseStudio scope ident props aws))"
  by (simp add: prodBranch_new prodBranchUrl_new app_new)

end
